theory Spec2Isabelle
  imports Main
begin

section \<open>The bridging header \<^verbatim>\<open>src/Speakez/Speakez-Bridging-Header.h\<close>\<close>

text \<open>
  The repository is one C header. It is embedded as the text it is: the list of its
  seventeen physical lines, in order. The last line has no line terminator in the source;
  a list of lines does not record that.
\<close>

definition Speakez_Bridging_Header :: "string list" where
  \<open>Speakez_Bridging_Header =
    [''//'',
     ''//  Speakez-Bridging-Header.h'',
     ''//  Speakez'',
     ''//'',
     ''//  Bridging header for whisper.cpp integration'',
     ''//'',
     '''',
     ''#ifndef Speakez_Bridging_Header_h'',
     ''#define Speakez_Bridging_Header_h'',
     '''',
     ''// Include ggml headers first'',
     ''#include "ggml.h"'',
     '''',
     ''// Include whisper.cpp header'',
     ''#include "whisper.h"'',
     '''',
     ''#endif /* Speakez_Bridging_Header_h */'']\<close>

abbreviation guard_macro :: string where
  "guard_macro \<equiv> ''Speakez_Bridging_Header_h''"

abbreviation ggml_h :: string where
  "ggml_h \<equiv> ''ggml.h''"

abbreviation whisper_h :: string where
  "whisper_h \<equiv> ''whisper.h''"

section \<open>What the C preprocessor does with such a file\<close>

text \<open>
  The header has no function of its own: what it does is what the preprocessor does when a
  translation unit includes it. The part of the preprocessor the header exercises is
  modelled here: comments are replaced by a space (translation phase 3), then each line is
  either empty, a directive (its first token is \<open>#\<close>) or a line of program text.
\<close>

subsection \<open>Comments\<close>

datatype lex_mode = Code | Slash | Line_Comment | Block_Comment | Block_Star | Quoted | Quoted_Esc

text \<open>
  One character of a line. \<open>Slash\<close> holds back a \<open>/\<close> until the next character says
  whether it opens a comment; inside a string literal nothing opens a comment.
\<close>

fun lex_char :: "lex_mode \<Rightarrow> char \<Rightarrow> string \<times> lex_mode" where
  "lex_char Code c =
     (if c = CHR ''/'' then ([], Slash)
      else if c = CHR 0x22 then ([c], Quoted)
      else ([c], Code))"
| "lex_char Slash c =
     (if c = CHR ''/'' then ('' '', Line_Comment)
      else if c = CHR ''*'' then ('' '', Block_Comment)
      else if c = CHR 0x22 then ([CHR ''/'', c], Quoted)
      else ([CHR ''/'', c], Code))"
| "lex_char Line_Comment c = ([], Line_Comment)"
| "lex_char Block_Comment c =
     (if c = CHR ''*'' then ([], Block_Star) else ([], Block_Comment))"
| "lex_char Block_Star c =
     (if c = CHR ''/'' then ([], Code)
      else if c = CHR ''*'' then ([], Block_Star)
      else ([], Block_Comment))"
| "lex_char Quoted c =
     (if c = CHR 0x22 then ([c], Code)
      else if c = CHR 0x5C then ([c], Quoted_Esc)
      else ([c], Quoted))"
| "lex_char Quoted_Esc c = ([c], Quoted)"

text \<open>
  The end of a line: a line comment ends, a block comment stays open for the next line, a
  held-back \<open>/\<close> is an ordinary character.
\<close>

fun lex_eol :: "lex_mode \<Rightarrow> string \<times> lex_mode" where
  "lex_eol Slash = (''/'', Code)"
| "lex_eol Block_Comment = ([], Block_Comment)"
| "lex_eol Block_Star = ([], Block_Comment)"
| "lex_eol m = ([], Code)"

fun strip_comments :: "lex_mode \<Rightarrow> string \<Rightarrow> string \<times> lex_mode" where
  "strip_comments m [] = lex_eol m"
| "strip_comments m (c # cs) =
     (case lex_char m c of (out1, m1) \<Rightarrow>
        (case strip_comments m1 cs of (out2, m2) \<Rightarrow> (out1 @ out2, m2)))"

fun strip_lines :: "lex_mode \<Rightarrow> string list \<Rightarrow> string list" where
  "strip_lines m [] = []"
| "strip_lines m (l # ls) =
     (case strip_comments m l of (l', m') \<Rightarrow> l' # strip_lines m' ls)"

subsection \<open>Lines and directives\<close>

datatype line =
    Blank
  | Ifndef string
  | Define string string
  | Include string
  | Endif
  | Other_Directive string
  | Text string

definition is_space :: "char \<Rightarrow> bool" where
  "is_space c \<longleftrightarrow> c = CHR '' '' \<or> c = CHR 0x09"

definition is_ident_char :: "char \<Rightarrow> bool" where
  "is_ident_char c \<longleftrightarrow>
     c \<in> set ''abcdefghijklmnopqrstuvwxyzABCDEFGHIJKLMNOPQRSTUVWXYZ0123456789_''"

definition trim :: "string \<Rightarrow> string" where
  "trim s = rev (dropWhile is_space (rev (dropWhile is_space s)))"

text \<open>
  The text after the \<open>#\<close>. The directive name is the first identifier; \<open>#ifndef\<close> and
  \<open>#define\<close> take the identifier that follows, \<open>#include\<close> the name between double quotes.
  The empty directive is a blank line. Every directive the header does not use, and every
  malformed one, is \<open>Other_Directive\<close>, which stops the preprocessor when it is reached.
\<close>

definition directive :: "string \<Rightarrow> line" where
  "directive s =
     (let name = takeWhile is_ident_char s;
          rest = dropWhile is_space (dropWhile is_ident_char s);
          ident = takeWhile is_ident_char rest;
          after = dropWhile is_ident_char rest
      in if s = [] then Blank
         else if name = ''ifndef'' then
           (if ident \<noteq> [] \<and> trim after = [] then Ifndef ident else Other_Directive s)
         else if name = ''define'' then
           (if ident \<noteq> [] then Define ident (trim after) else Other_Directive s)
         else if name = ''include'' then
           (case rest of
              [] \<Rightarrow> Other_Directive s
            | q # r \<Rightarrow>
                if q = CHR 0x22 \<and> CHR 0x22 \<in> set r
                   \<and> trim (tl (dropWhile (\<lambda>c. c \<noteq> CHR 0x22) r)) = []
                then Include (takeWhile (\<lambda>c. c \<noteq> CHR 0x22) r)
                else Other_Directive s)
         else if name = ''endif'' then
           (if rest = [] then Endif else Other_Directive s)
         else Other_Directive s)"

definition classify :: "string \<Rightarrow> line" where
  "classify l =
     (case dropWhile is_space l of
        [] \<Rightarrow> Blank
      | c # cs \<Rightarrow> if c = CHR ''#'' then directive (dropWhile is_space cs) else Text (trim l))"

definition parse :: "string list \<Rightarrow> line list" where
  "parse ls = map classify (strip_lines Code ls)"


fun is_directive :: "line \<Rightarrow> bool" where
  "is_directive Blank = False"
| "is_directive (Text t) = False"
| "is_directive l = True"

definition directives :: "line list \<Rightarrow> line list" where
  "directives ls = filter is_directive ls"

fun program_text :: "line list \<Rightarrow> string list" where
  "program_text [] = []"
| "program_text (Text t # ls) = t # program_text ls"
| "program_text (l # ls) = program_text ls"

fun includes_of :: "line list \<Rightarrow> string list" where
  "includes_of [] = []"
| "includes_of (Include h # ls) = h # includes_of ls"
| "includes_of (l # ls) = includes_of ls"

fun defined_names :: "line list \<Rightarrow> string list" where
  "defined_names [] = []"
| "defined_names (Define x b # ls) = x # defined_names ls"
| "defined_names (l # ls) = defined_names ls"

subsection \<open>Executing the directives\<close>

text \<open>
  What a translation unit has accumulated when a line is reached: the macros defined so far
  (name to replacement text) and the program text seen so far.
\<close>

record tu_state =
  macros :: "string \<rightharpoonup> string"
  tokens :: "string list"

text \<open>
  \<open>ggml.h\<close> and \<open>whisper.h\<close> belong to the external library and are not part of the
  repository, so they are parameters. A header that is found is whatever it does to the
  translation unit that includes it, given everything visible at that point: it returns
  the translation unit with its declarations and macros added, or the message of an
  error raised inside it. The include path maps a header name to the header found
  under it, if any.
\<close>

type_synonym header = "tu_state \<Rightarrow> string + tu_state"

type_synonym include_path = "string \<Rightarrow> header option"

datatype error =
    Header_Not_Found string
  | In_Header string string
  | Macro_Redefined string
  | Stray_Endif
  | Unterminated_Conditional
  | Bad_Directive string

text \<open>
  The preprocessor's own state while it reads one file: the translation unit, one flag per
  open conditional group (is the group being kept?), and the headers it has included so
  far, in order.
\<close>

record pp_state =
  tu :: tu_state
  conds :: "bool list"
  included :: "string list"

definition active :: "pp_state \<Rightarrow> bool" where
  "active s \<longleftrightarrow> list_all (\<lambda>b. b) (conds s)"

definition define_macro :: "string \<Rightarrow> string \<Rightarrow> tu_state \<Rightarrow> tu_state" where
  "define_macro x b u = u\<lparr>macros := (macros u)(x \<mapsto> b)\<rparr>"

text \<open>
  One line. In a group that is being skipped only the nesting of conditionals is followed.
  Defining a macro again is allowed with the same replacement text only (C11 6.10.3).
  An include directive looks the name up, fails if nothing is found, and otherwise hands
  the translation unit as it stands to the header.
\<close>

fun step :: "include_path \<Rightarrow> line \<Rightarrow> pp_state \<Rightarrow> error + pp_state" where
  "step path Blank s = Inr s"
| "step path (Ifndef x) s =
     Inr (s\<lparr>conds := (active s \<and> macros (tu s) x = None) # conds s\<rparr>)"
| "step path Endif s =
     (case conds s of
        [] \<Rightarrow> Inl Stray_Endif
      | c # cs \<Rightarrow> Inr (s\<lparr>conds := cs\<rparr>))"
| "step path (Define x b) s =
     (if active s then
        (case macros (tu s) x of
           None \<Rightarrow> Inr (s\<lparr>tu := define_macro x b (tu s)\<rparr>)
         | Some b' \<Rightarrow> if b' = b then Inr s else Inl (Macro_Redefined x))
      else Inr s)"
| "step path (Include h) s =
     (if active s then
        (case path h of
           None \<Rightarrow> Inl (Header_Not_Found h)
         | Some f \<Rightarrow>
             (case f (tu s) of
                Inl msg \<Rightarrow> Inl (In_Header h msg)
              | Inr u \<Rightarrow> Inr (s\<lparr>tu := u, included := included s @ [h]\<rparr>)))
      else Inr s)"
| "step path (Other_Directive d) s =
     (if active s then Inl (Bad_Directive d) else Inr s)"
| "step path (Text t) s =
     (if active s then Inr (s\<lparr>tu := (tu s)\<lparr>tokens := tokens (tu s) @ [t]\<rparr>\<rparr>) else Inr s)"

fun run :: "include_path \<Rightarrow> line list \<Rightarrow> pp_state \<Rightarrow> error + pp_state" where
  "run path [] s = Inr s"
| "run path (l # ls) s =
     (case step path l s of Inl e \<Rightarrow> Inl e | Inr s' \<Rightarrow> run path ls s')"

text \<open>
  Reading a whole file into a translation unit: the result is the translation unit
  afterwards and the headers that were included, or the first error. Every conditional
  opened in a file must be closed in it.
\<close>

definition preprocess ::
  "include_path \<Rightarrow> string list \<Rightarrow> tu_state \<Rightarrow> error + tu_state \<times> string list" where
  "preprocess path file u =
     (case run path (parse file) \<lparr>tu = u, conds = [], included = []\<rparr> of
        Inl e \<Rightarrow> Inl e
      | Inr s \<Rightarrow> if conds s = [] then Inr (tu s, included s) else Inl Unterminated_Conditional)"

text \<open>Including the bridging header in a translation unit.\<close>

definition include_header :: "include_path \<Rightarrow> tu_state \<Rightarrow> error + tu_state \<times> string list" where
  "include_header path u = preprocess path Speakez_Bridging_Header u"

text \<open>Including it \<open>n\<close> times in a row.\<close>

primrec include_times :: "nat \<Rightarrow> include_path \<Rightarrow> tu_state \<Rightarrow> error + tu_state" where
  "include_times 0 path u = Inr u"
| "include_times (Suc n) path u =
     (case include_header path u of
        Inl e \<Rightarrow> Inl e
      | Inr r \<Rightarrow> include_times n path (fst r))"

section \<open>Translation units and include paths to run the header on\<close>

text \<open>
  Concrete inputs for the statements below: an empty translation unit, and include paths
  under which the two library headers are empty, declare one type each (with \<open>whisper.h\<close>
  needing the type \<open>ggml.h\<close> declares), are partly missing, or do not fit together.
\<close>

definition empty_tu :: tu_state where
  "empty_tu = \<lparr>macros = Map.empty, tokens = []\<rparr>"

definition empty_header :: header where
  "empty_header u = Inr u"

definition declaring :: "string \<Rightarrow> header" where
  "declaring d u = Inr (u\<lparr>tokens := tokens u @ [d]\<rparr>)"

definition requiring :: "string \<Rightarrow> string \<Rightarrow> header" where
  "requiring d d' u =
     (if d \<in> set (tokens u) then Inr (u\<lparr>tokens := tokens u @ [d']\<rparr>)
      else Inl (''undeclared: '' @ d))"

definition contentless_path :: include_path where
  "contentless_path h = (if h = ggml_h \<or> h = whisper_h then Some empty_header else None)"

definition library_path :: include_path where
  "library_path h =
     (if h = ggml_h then Some (declaring ''struct ggml_context;'')
      else if h = whisper_h then
        Some (requiring ''struct ggml_context;'' ''struct whisper_context;'')
      else None)"

definition ggml_only_path :: include_path where
  "ggml_only_path h =
     (if h = ggml_h then Some (declaring ''struct ggml_context;'') else None)"

definition mismatched_path :: include_path where
  "mismatched_path h =
     (if h = ggml_h then Some (declaring ''struct ggml_cgraph;'')
      else if h = whisper_h then
        Some (requiring ''struct ggml_context;'' ''struct whisper_context;'')
      else None)"

section \<open>The header, line by line\<close>

lemma header_lines:
  "parse Speakez_Bridging_Header =
     [Blank, Blank, Blank, Blank, Blank, Blank, Blank,
      Ifndef guard_macro, Define guard_macro [],
      Blank, Blank, Include ggml_h,
      Blank, Blank, Include whisper_h,
      Blank, Endif]"
  by code_simp

text \<open>
  The one fact everything below rests on: what including the header does, for every
  include path and every translation unit.
\<close>

lemma include_header_skipped:
  "macros u guard_macro = Some b \<Longrightarrow> include_header path u = Inr (u, [])"
  by (simp add: include_header_def preprocess_def header_lines active_def)

lemma include_header_taken:
  "macros u guard_macro = None \<Longrightarrow>
   include_header path u =
     (case path ggml_h of
        None \<Rightarrow> Inl (Header_Not_Found ggml_h)
      | Some f \<Rightarrow>
          (case f (define_macro guard_macro [] u) of
             Inl msg \<Rightarrow> Inl (In_Header ggml_h msg)
           | Inr u1 \<Rightarrow>
               (case path whisper_h of
                  None \<Rightarrow> Inl (Header_Not_Found whisper_h)
                | Some g \<Rightarrow>
                    (case g u1 of
                       Inl msg \<Rightarrow> Inl (In_Header whisper_h msg)
                     | Inr u2 \<Rightarrow> Inr (u2, [ggml_h, whisper_h])))))"
  by (simp add: include_header_def preprocess_def header_lines active_def define_macro_def
      split: option.split sum.split)

text \<open>
  Line splicing and trigraphs are not modelled: no line of the header contains a backslash
  or a question mark.
\<close>

lemma header_plain_characters:
  "list_all (\<lambda>l. CHR 0x5C \<notin> set l \<and> CHR ''?'' \<notin> set l) Speakez_Bridging_Header"
  by (simp add: Speakez_Bridging_Header_def)

lemma include_times_skipped:
  "macros u guard_macro = Some b \<Longrightarrow> include_times n path u = Inr u"
  by (induction n) (simp_all add: include_header_skipped)

section \<open>The specification's claims\<close>

subsection \<open>C1: the content of the file\<close>

text \<open>
  C1 as stated: the entire content of the file is two include directives. It is not: once
  comments are removed, the lines that are not empty are five directives, not two.
\<close>

theorem not_only_two_includes:
  "directives (parse Speakez_Bridging_Header) \<noteq> [Include ggml_h, Include whisper_h]"
  by (simp add: header_lines directives_def)

text \<open>
  C1 as amended: the file has seventeen lines; with comments removed twelve of them are
  empty and the other five are directives, namely the include guard (\<open>#ifndef\<close> and
  \<open>#define\<close> of \<open>Speakez_Bridging_Header_h\<close>, and the closing \<open>#endif\<close>) around two
  include directives, \<open>ggml.h\<close> then \<open>whisper.h\<close>. No line carries program text: beyond
  the directives there are zero lines of original logic.
\<close>

theorem header_content:
  "length Speakez_Bridging_Header = 17
   \<and> count_list (parse Speakez_Bridging_Header) Blank = 12
   \<and> directives (parse Speakez_Bridging_Header) =
       [Ifndef guard_macro, Define guard_macro [], Include ggml_h, Include whisper_h, Endif]
   \<and> includes_of (parse Speakez_Bridging_Header) = [ggml_h, whisper_h]
   \<and> program_text (parse Speakez_Bridging_Header) = []"
  by (simp add: header_lines directives_def) (simp add: Speakez_Bridging_Header_def)

subsection \<open>C2: the two external interfaces\<close>

text \<open>
  C2: the file names exactly two headers, \<open>ggml.h\<close> and \<open>whisper.h\<close>; what including it
  does depends on the include path at these two names only, so nothing else is pulled into
  scope; and when including it fails, either one of the two headers was not found, or the
  error was raised inside one of them. No directive of the file itself can fail.
\<close>

theorem only_two_interfaces:
  "includes_of (parse Speakez_Bridging_Header) = [ggml_h, whisper_h]
   \<and> (path ggml_h = path' ggml_h \<and> path whisper_h = path' whisper_h
        \<longrightarrow> include_header path' u = include_header path u)
   \<and> (include_header path u = Inl e
        \<longrightarrow> (e = Header_Not_Found ggml_h \<and> path ggml_h = None)
          \<or> (e = Header_Not_Found whisper_h \<and> path whisper_h = None)
          \<or> (\<exists>msg. e = In_Header ggml_h msg)
          \<or> (\<exists>msg. e = In_Header whisper_h msg))"
proof (intro conjI impI)
  show "includes_of (parse Speakez_Bridging_Header) = [ggml_h, whisper_h]"
    by (simp add: header_lines)
next
  assume "path ggml_h = path' ggml_h \<and> path whisper_h = path' whisper_h"
  then show "include_header path' u = include_header path u"
    by (cases "macros u guard_macro")
       (auto simp: include_header_taken include_header_skipped split: option.splits sum.splits)
next
  assume fails: "include_header path u = Inl e"
  show "(e = Header_Not_Found ggml_h \<and> path ggml_h = None)
          \<or> (e = Header_Not_Found whisper_h \<and> path whisper_h = None)
          \<or> (\<exists>msg. e = In_Header ggml_h msg)
          \<or> (\<exists>msg. e = In_Header whisper_h msg)"
  proof (cases "macros u guard_macro")
    case None
    with fails show ?thesis
      by (auto simp: include_header_taken split: option.splits sum.splits)
  next
    case (Some b)
    with fails show ?thesis
      by (simp add: include_header_skipped)
  qed
qed

theorem only_two_interfaces_witness:
  "include_header ggml_only_path empty_tu = Inl (Header_Not_Found whisper_h)
   \<and> ggml_only_path whisper_h = None
   \<and> include_header (ggml_only_path(''stdio.h'' \<mapsto> empty_header)) empty_tu
       = include_header ggml_only_path empty_tu"
proof -
  have fails: "include_header ggml_only_path empty_tu = Inl (Header_Not_Found whisper_h)"
    by (simp add: include_header_taken empty_tu_def ggml_only_path_def declaring_def)
  show ?thesis
    using only_two_interfaces
      [of ggml_only_path "ggml_only_path(''stdio.h'' \<mapsto> empty_header)" empty_tu
          "Header_Not_Found whisper_h"]
      fails
    by (simp add: ggml_only_path_def)
qed

subsection \<open>C3: nothing of its own but the guard\<close>

text \<open>
  C3 as stated: the file defines no state and no control flow, mutates nothing and performs
  no computation. It does: with both library headers empty, including it in an empty
  translation unit defines the macro \<open>Speakez_Bridging_Header_h\<close>, which was not defined
  before, and including it in the translation unit so obtained takes the other branch of
  the \<open>#ifndef\<close>: nothing is included and nothing changes.
\<close>

theorem guard_is_state_and_branch:
  "macros empty_tu guard_macro = None
   \<and> include_header contentless_path empty_tu
       = Inr (define_macro guard_macro [] empty_tu, [ggml_h, whisper_h])
   \<and> macros (define_macro guard_macro [] empty_tu) guard_macro = Some []
   \<and> include_header contentless_path (define_macro guard_macro [] empty_tu)
       = Inr (define_macro guard_macro [] empty_tu, [])"
proof -
  have before: "macros empty_tu guard_macro = None"
    by (simp add: empty_tu_def)
  have after: "macros (define_macro guard_macro [] empty_tu) guard_macro = Some []"
    by (simp add: define_macro_def)
  have first: "include_header contentless_path empty_tu
       = Inr (define_macro guard_macro [] empty_tu, [ggml_h, whisper_h])"
    by (simp add: include_header_taken [OF before] contentless_path_def empty_header_def)
  have second: "include_header contentless_path (define_macro guard_macro [] empty_tu)
       = Inr (define_macro guard_macro [] empty_tu, [])"
    by (rule include_header_skipped [OF after])
  from before first after second show ?thesis by simp
qed

text \<open>
  C3 as amended: apart from its include guard, the file defines no data structure, control
  flow, state or protocol, defines or mutates no entity and performs no computation. It
  has no line of program text; the only name it defines is the guard macro; and for every
  translation unit, what the file does by itself (both library headers empty) is the
  guard and nothing else: if the guard macro is not defined it becomes defined and the
  two headers are included, otherwise the translation unit is left exactly as it was.
\<close>

theorem nothing_but_the_guard:
  "program_text (parse Speakez_Bridging_Header) = []
   \<and> defined_names (parse Speakez_Bridging_Header) = [guard_macro]
   \<and> include_header contentless_path u =
       (if macros u guard_macro = None
        then Inr (define_macro guard_macro [] u, [ggml_h, whisper_h])
        else Inr (u, []))"
proof (intro conjI)
  show "program_text (parse Speakez_Bridging_Header) = []"
    by (simp add: header_lines)
next
  show "defined_names (parse Speakez_Bridging_Header) = [guard_macro]"
    by (simp add: header_lines)
next
  show "include_header contentless_path u =
       (if macros u guard_macro = None
        then Inr (define_macro guard_macro [] u, [ggml_h, whisper_h])
        else Inr (u, []))"
  proof (cases "macros u guard_macro")
    case None
    then show ?thesis
      by (simp add: include_header_taken contentless_path_def empty_header_def)
  next
    case (Some b)
    then show ?thesis
      by (simp add: include_header_skipped)
  qed
qed

subsection \<open>C4: failures are build failures\<close>

text \<open>
  C4: the file has no program text, hence no code that could raise or handle an error when
  the program runs; and when the header is really included (its guard is not yet defined),
  preprocessing fails exactly when one of the two headers is missing or raises an error on
  what is visible when it is included. A missing or mismatched interface is an error of the
  build.
\<close>

theorem interface_failure_at_build:
  assumes "macros u guard_macro = None"
  shows "program_text (parse Speakez_Bridging_Header) = []
     \<and> (isl (include_header path u) \<longleftrightarrow>
         \<not> (\<exists>f g u1 u2. path ggml_h = Some f \<and> f (define_macro guard_macro [] u) = Inr u1
                \<and> path whisper_h = Some g \<and> g u1 = Inr u2))"
  using assms
  by (auto simp: include_header_taken header_lines split: option.splits sum.splits)

theorem interface_failure_at_build_witness:
  "macros empty_tu guard_macro = None
   \<and> isl (include_header ggml_only_path empty_tu)
   \<and> isl (include_header mismatched_path empty_tu)
   \<and> \<not> isl (include_header library_path empty_tu)"
proof -
  have undefined: "macros empty_tu guard_macro = None"
    by (simp add: empty_tu_def)
  have missing: "isl (include_header ggml_only_path empty_tu)"
    using interface_failure_at_build [OF undefined, of ggml_only_path]
    by (simp add: ggml_only_path_def)
  have mismatched: "isl (include_header mismatched_path empty_tu)"
    using interface_failure_at_build [OF undefined, of mismatched_path]
    by (simp add: mismatched_path_def declaring_def requiring_def define_macro_def empty_tu_def)
  have fine: "\<not> isl (include_header library_path empty_tu)"
    using interface_failure_at_build [OF undefined, of library_path]
    by (simp add: library_path_def declaring_def requiring_def define_macro_def empty_tu_def)
  from undefined missing mismatched fine show ?thesis by simp
qed

subsection \<open>C5: what the file leaves unchanged\<close>

text \<open>
  C5 as stated: everything outside the two included interfaces is left unchanged. With
  both library headers empty, including the file in an empty translation unit still
  changes it: the macro \<open>Speakez_Bridging_Header_h\<close> is defined afterwards.
\<close>

theorem inclusion_defines_guard:
  "include_header contentless_path empty_tu
     = Inr (empty_tu\<lparr>macros := [guard_macro \<mapsto> []]\<rparr>, [ggml_h, whisper_h])
   \<and> macros (empty_tu\<lparr>macros := [guard_macro \<mapsto> []]\<rparr>) guard_macro \<noteq> macros empty_tu guard_macro"
  by (simp add: include_header_taken empty_tu_def contentless_path_def empty_header_def
      define_macro_def)

text \<open>
  C5 as amended: the file introduces no surface of its own, and everything outside the two
  included interfaces is left unchanged by it except that the guard macro
  \<open>Speakez_Bridging_Header_h\<close> becomes defined: any observation of the translation unit
  that neither library header changes and that does not depend on the guard macro has the
  same value after a successful inclusion as before.
\<close>

theorem frame_except_guard:
  assumes incl: "include_header path u = Inr (u', l)"
      and headers: "\<And>f v v'. path ggml_h = Some f \<or> path whisper_h = Some f \<Longrightarrow>
                      f v = Inr v' \<Longrightarrow> obs v' = obs v"
      and guard: "\<And>v. obs (define_macro guard_macro [] v) = obs v"
  shows "obs u' = obs u"
proof (cases "macros u guard_macro")
  case None
  from incl None obtain f g u1
    where f: "path ggml_h = Some f" and fu: "f (define_macro guard_macro [] u) = Inr u1"
      and g: "path whisper_h = Some g" and gu: "g u1 = Inr u'"
    by (auto simp: include_header_taken split: option.splits sum.splits)
  have "obs u' = obs u1" using headers [of g u1 u'] g gu by simp
  also have "\<dots> = obs (define_macro guard_macro [] u)"
    using headers [of f "define_macro guard_macro [] u" u1] f fu by simp
  also have "\<dots> = obs u" by (rule guard)
  finally show ?thesis .
next
  case (Some b)
  with incl show ?thesis by (simp add: include_header_skipped)
qed

theorem frame_except_guard_witness:
  "include_header library_path empty_tu
     = Inr (\<lparr>macros = [guard_macro \<mapsto> []],
             tokens = [''struct ggml_context;'', ''struct whisper_context;'']\<rparr>,
            [ggml_h, whisper_h])
   \<and> macros \<lparr>macros = [guard_macro \<mapsto> []],
             tokens = [''struct ggml_context;'', ''struct whisper_context;'']\<rparr> ''NDEBUG''
       = macros empty_tu ''NDEBUG''"
proof -
  have incl: "include_header library_path empty_tu
     = Inr (\<lparr>macros = [guard_macro \<mapsto> []],
             tokens = [''struct ggml_context;'', ''struct whisper_context;'']\<rparr>,
            [ggml_h, whisper_h])"
    by (simp add: include_header_taken empty_tu_def library_path_def declaring_def
        requiring_def define_macro_def)
  have headers: "\<And>f v v'. library_path ggml_h = Some f \<or> library_path whisper_h = Some f \<Longrightarrow>
      f v = Inr v' \<Longrightarrow> macros v' ''NDEBUG'' = macros v ''NDEBUG''"
    by (auto simp: library_path_def declaring_def requiring_def split: if_splits)
  have guard: "\<And>v. macros (define_macro guard_macro [] v) ''NDEBUG'' = macros v ''NDEBUG''"
    by (simp add: define_macro_def)
  show ?thesis
    using frame_except_guard [of library_path empty_tu _ _ "\<lambda>v. macros v ''NDEBUG''",
        OF incl headers guard] incl
    by simp
qed

subsection \<open>C7: the order of the two includes\<close>

text \<open>
  C7: \<open>ggml.h\<close> comes before \<open>whisper.h\<close> in the file, and whenever the header is
  really included with both library headers found, \<open>ggml.h\<close> is processed first and
  \<open>whisper.h\<close> is processed on the translation unit that \<open>ggml.h\<close> returned: the
  declarations of the tensor core are visible to it.
\<close>

theorem ggml_before_whisper:
  assumes "macros u guard_macro = None"
      and "path ggml_h = Some f"
      and "path whisper_h = Some g"
  shows "includes_of (parse Speakez_Bridging_Header) = [ggml_h, whisper_h]
     \<and> include_header path u =
        (case f (define_macro guard_macro [] u) of
           Inl msg \<Rightarrow> Inl (In_Header ggml_h msg)
         | Inr u1 \<Rightarrow>
             (case g u1 of
                Inl msg \<Rightarrow> Inl (In_Header whisper_h msg)
              | Inr u2 \<Rightarrow> Inr (u2, [ggml_h, whisper_h])))"
  using assms by (simp add: include_header_taken header_lines split: sum.split)

theorem ggml_before_whisper_witness:
  "macros empty_tu guard_macro = None
   \<and> include_header library_path empty_tu
     = Inr (\<lparr>macros = [guard_macro \<mapsto> []],
             tokens = [''struct ggml_context;'', ''struct whisper_context;'']\<rparr>,
            [ggml_h, whisper_h])"
proof -
  have undefined: "macros empty_tu guard_macro = None"
    by (simp add: empty_tu_def)
  have ggml: "library_path ggml_h = Some (declaring ''struct ggml_context;'')"
    by (simp add: library_path_def)
  have whisper: "library_path whisper_h
      = Some (requiring ''struct ggml_context;'' ''struct whisper_context;'')"
    by (simp add: library_path_def)
  show ?thesis
    using ggml_before_whisper [OF undefined ggml whisper]
    by (simp add: empty_tu_def declaring_def requiring_def define_macro_def)
qed

subsection \<open>C8: including the header again\<close>

text \<open>
  C8: including the header a second or any later time adds nothing: any number of
  inclusions in a row gives what the first one gives. The included headers belong to the
  external library; they are taken not to undefine the guard macro.
\<close>

theorem include_idempotent:
  assumes keep: "\<And>f v v'. path ggml_h = Some f \<or> path whisper_h = Some f \<Longrightarrow>
                   f v = Inr v' \<Longrightarrow> macros v guard_macro \<noteq> None \<Longrightarrow>
                   macros v' guard_macro \<noteq> None"
  shows "include_times (Suc n) path u = include_times (Suc 0) path u"
proof (cases "include_header path u")
  case (Inl e)
  then show ?thesis by simp
next
  case (Inr r)
  have "macros (fst r) guard_macro \<noteq> None"
  proof (cases "macros u guard_macro")
    case None
    from Inr None obtain f g u1
      where f: "path ggml_h = Some f" and fu: "f (define_macro guard_macro [] u) = Inr u1"
        and g: "path whisper_h = Some g" and gu: "g u1 = Inr (fst r)"
      by (auto simp: include_header_taken split: option.splits sum.splits)
    have "macros (define_macro guard_macro [] u) guard_macro \<noteq> None"
      by (simp add: define_macro_def)
    with keep [of f "define_macro guard_macro [] u" u1] f fu
    have "macros u1 guard_macro \<noteq> None" by simp
    with keep [of g u1 "fst r"] g gu show ?thesis by simp
  next
    case (Some b)
    with Inr show ?thesis by (auto simp: include_header_skipped)
  qed
  then obtain b where "macros (fst r) guard_macro = Some b" by auto
  then have "include_times n path (fst r) = Inr (fst r)"
    by (rule include_times_skipped)
  with Inr show ?thesis by simp
qed

theorem include_idempotent_witness:
  "include_times (Suc 2) library_path empty_tu = include_times (Suc 0) library_path empty_tu
   \<and> include_times (Suc 0) library_path empty_tu
     = Inr \<lparr>macros = [guard_macro \<mapsto> []],
            tokens = [''struct ggml_context;'', ''struct whisper_context;'']\<rparr>"
proof -
  have keep: "\<And>f v v'. library_path ggml_h = Some f \<or> library_path whisper_h = Some f \<Longrightarrow>
      f v = Inr v' \<Longrightarrow> macros v guard_macro \<noteq> None \<Longrightarrow> macros v' guard_macro \<noteq> None"
    by (auto simp: library_path_def declaring_def requiring_def split: if_splits)
  have once: "include_times (Suc 0) library_path empty_tu
     = Inr \<lparr>macros = [guard_macro \<mapsto> []],
            tokens = [''struct ggml_context;'', ''struct whisper_context;'']\<rparr>"
    by (simp add: include_header_taken empty_tu_def library_path_def declaring_def
        requiring_def define_macro_def)
  from include_idempotent [of library_path 2 empty_tu, OF keep] once
  show ?thesis by simp
qed

subsection \<open>C9: the only name the file defines\<close>

text \<open>
  C9: the only name the file defines is the guard macro. After a successful inclusion the
  translation unit is either unchanged (the guard was already defined) or it is the result
  of defining the guard macro and then processing \<open>ggml.h\<close> and \<open>whisper.h\<close>: everything
  else that became visible comes from these two headers.
\<close>

theorem only_guard_defined:
  assumes "include_header path u = Inr (u', l)"
  shows "defined_names (parse Speakez_Bridging_Header) = [guard_macro]
     \<and> (if macros u guard_macro = None
         then \<exists>f g u1. path ggml_h = Some f \<and> f (define_macro guard_macro [] u) = Inr u1
                \<and> path whisper_h = Some g \<and> g u1 = Inr u'
         else u' = u)"
  using assms
  by (auto simp: include_header_taken include_header_skipped header_lines
      split: option.splits sum.splits)

theorem only_guard_defined_witness:
  "include_header contentless_path empty_tu = Inr (define_macro guard_macro [] empty_tu, [ggml_h, whisper_h])
   \<and> defined_names (parse Speakez_Bridging_Header) = [guard_macro]
   \<and> macros empty_tu guard_macro = None
   \<and> contentless_path ggml_h = Some empty_header
   \<and> contentless_path whisper_h = Some empty_header"
proof -
  have incl: "include_header contentless_path empty_tu
      = Inr (define_macro guard_macro [] empty_tu, [ggml_h, whisper_h])"
    by (simp add: include_header_taken empty_tu_def contentless_path_def empty_header_def)
  show ?thesis
    using only_guard_defined [OF incl] incl
    by (simp add: contentless_path_def empty_tu_def)
qed

end
